theory Spec2Isabelle
  imports Main "HOL-Library.Sublist"
begin

section \<open>JavaScript values\<close>

text \<open>
  The values that \<^verbatim>\<open>JSON.parse\<close> and \<^verbatim>\<open>response.json()\<close> produce. Numbers are
  integers, on which JavaScript's arithmetic is exact below \<open>2\<^sup>5\<^sup>3\<close>: the client
  computes only with timestamps, which \<^verbatim>\<open>Date.now()\<close> gives as whole milliseconds,
  and passes the data of a response on unchanged. An object is the list of its own
  properties, read with \<open>map_of\<close>. A JavaScript value that may be \<^verbatim>\<open>undefined\<close>
  is a \<open>jsval\<close>, with \<open>None\<close> for \<^verbatim>\<open>undefined\<close>.
\<close>

datatype json =
    JNull
  | JBool bool
  | JNum int
  | JStr string
  | JArr "json list"
  | JObj "(string \<times> json) list"

type_synonym jsval = "json option"

datatype error =
    TypeError
  | SyntaxError
  | SecurityError
  | QuotaExceededError
  | FetchFailed
  | ApiError nat

text \<open>What an \<^verbatim>\<open>async\<close> function hands to its caller: a value, or an exception.\<close>

datatype outcome = Returns jsval | Throws error

text \<open>\<^verbatim>\<open>if (v)\<close>, \<^verbatim>\<open>!v\<close>, \<^verbatim>\<open>a && b\<close>: ToBoolean.\<close>

fun truthy :: "jsval \<Rightarrow> bool" where
  "truthy None = False"
| "truthy (Some JNull) = False"
| "truthy (Some (JBool b)) = b"
| "truthy (Some (JNum n)) = (n \<noteq> 0)"
| "truthy (Some (JStr s)) = (s \<noteq> [])"
| "truthy (Some (JArr xs)) = True"
| "truthy (Some (JObj kvs)) = True"

text \<open>\<^verbatim>\<open>typeof v === 'object'\<close>, which holds of \<^verbatim>\<open>null\<close> too.\<close>

fun typeof_object :: "json \<Rightarrow> bool" where
  "typeof_object JNull = True"
| "typeof_object (JArr xs) = True"
| "typeof_object (JObj kvs) = True"
| "typeof_object v = False"

text \<open>
  \<^verbatim>\<open>v.data\<close> and \<^verbatim>\<open>v.timestamp\<close> on a value that is not \<^verbatim>\<open>null\<close>: an object
  yields its own property, everything else (an array, a primitive) has no property of
  these names and yields \<^verbatim>\<open>undefined\<close>.
\<close>

fun property :: "json \<Rightarrow> string \<Rightarrow> jsval" where
  "property (JObj kvs) k = map_of kvs k"
| "property v k = None"

subsection \<open>Conversion to a number\<close>

text \<open>
  An integer as a string, in decimal, as JavaScript writes integers of magnitude below
  \<open>10\<^sup>2\<^sup>1\<close>.
\<close>

definition digit :: "nat \<Rightarrow> char" where
  "digit n = ''0123456789'' ! n"

fun decimal :: "nat \<Rightarrow> string" where
  "decimal n = (if n < 10 then [digit n] else decimal (n div 10) @ [digit (n mod 10)])"

declare decimal.simps [simp del]

definition NumberToString :: "int \<Rightarrow> string" where
  "NumberToString n = (if n < 0 then CHR ''-'' # decimal (nat (- n)) else decimal (nat n))"

text \<open>
  ToString on a parsed value. An array is joined with commas, \<^verbatim>\<open>null\<close> elements
  giving the empty string. An object parsed from JSON inherits \<^verbatim>\<open>toString\<close> and
  \<^verbatim>\<open>valueOf\<close> from \<^verbatim>\<open>Object.prototype\<close> unless it has own properties of these
  names. The inherited \<^verbatim>\<open>valueOf\<close> returns the object itself and an own one is
  data, not a function, so either way the conversion to a primitive turns to
  \<^verbatim>\<open>toString\<close>: the inherited one gives \<^verbatim>\<open>[object Object]\<close>, and an own one,
  again not a function, leaves nothing to call, which is a \<^verbatim>\<open>TypeError\<close>.
\<close>

fun ToString :: "json \<Rightarrow> error + string"
  and join :: "json list \<Rightarrow> error + string" where
  "ToString JNull = Inr ''null''"
| "ToString (JBool b) = Inr (if b then ''true'' else ''false'')"
| "ToString (JNum n) = Inr (NumberToString n)"
| "ToString (JStr s) = Inr s"
| "ToString (JArr xs) = join xs"
| "ToString (JObj kvs) =
     (if map_of kvs ''toString'' \<noteq> None then Inl TypeError else Inr ''[object Object]'')"
| "join [] = Inr []"
| "join (x # xs) =
     (case (if x = JNull then Inr [] else ToString x) of
        Inl e \<Rightarrow> Inl e
      | Inr s \<Rightarrow>
          (if xs = [] then Inr s
           else (case join xs of Inl e \<Rightarrow> Inl e | Inr r \<Rightarrow> Inr (s @ '','' @ r))))"

text \<open>
  The built-ins the client calls and this development does not define:
  \<^verbatim>\<open>JSON.parse\<close> (\<open>None\<close> when it throws a \<^verbatim>\<open>SyntaxError\<close>),
  \<^verbatim>\<open>JSON.stringify\<close>, and the conversion of a string to a number
  (\<open>None\<close> for \<^verbatim>\<open>NaN\<close>).
\<close>

record platform =
  JSON_parse :: "string \<Rightarrow> json option"
  JSON_stringify :: "json \<Rightarrow> string"
  StringToNumber :: "string \<Rightarrow> int option"

text \<open>ToNumber, as the operand of \<^verbatim>\<open>-\<close> undergoes it; \<open>Inr None\<close> is \<^verbatim>\<open>NaN\<close>.\<close>

fun ToNumber :: "platform \<Rightarrow> jsval \<Rightarrow> error + int option" where
  "ToNumber P None = Inr None"
| "ToNumber P (Some JNull) = Inr (Some 0)"
| "ToNumber P (Some (JBool b)) = Inr (Some (if b then 1 else 0))"
| "ToNumber P (Some (JNum n)) = Inr (Some n)"
| "ToNumber P (Some (JStr s)) = Inr (StringToNumber P s)"
| "ToNumber P (Some v) =
     (case ToString v of Inl e \<Rightarrow> Inl e | Inr s \<Rightarrow> Inr (StringToNumber P s))"

section \<open>The GitHub API client (assets/js/api.js)\<close>

text \<open>
  The fields of \<^verbatim>\<open>GitHubAPI\<close> that change (\<^verbatim>\<open>this.cache\<close>), the browser's
  \<^verbatim>\<open>localStorage\<close>, and the log of the GET requests issued so far. The object
  \<^verbatim>\<open>this.cache\<close> is a map from URLs to entries; this is what property access on it
  does for every key but \<^verbatim>\<open>__proto__\<close>, which is taken not to be a URL. Only the
  client writes \<^verbatim>\<open>localStorage\<close> while a sequence of calls runs; what it holds
  before is arbitrary.
\<close>

record state =
  cache :: "string \<rightharpoonup> json"
  localStorage :: "string \<rightharpoonup> string"
  requests :: "string list"

text \<open>
  What the environment decides during one call of \<^verbatim>\<open>fetchJson\<close>: what
  \<^verbatim>\<open>Date.now()\<close> returns at lines 83, 92, 115 and 66, each reading the wall clock on
  its own, so that a later reading may be smaller than an earlier one; whether
  \<^verbatim>\<open>localStorage\<close> throws on reading or on writing; and what \<^verbatim>\<open>fetch\<close> does.
\<close>

datatype fetch_result = Rejected | Resolved nat string

record env =
  now1 :: int
  now2 :: int
  now3 :: int
  now4 :: int
  getItem_throws :: bool
  setItem_throws :: bool
  fetched :: fetch_result

definition cacheTime :: int where
  "cacheTime = 10 * 60 * 1000"

definition lsPrefix :: string where
  "lsPrefix = ''revo_cache_v1::''"

definition lsKey :: "string \<Rightarrow> string" where
  "lsKey url = lsPrefix @ url"

definition getItem :: "env \<Rightarrow> state \<Rightarrow> string \<Rightarrow> error + string option" where
  "getItem e s k = (if getItem_throws e then Inl SecurityError else Inr (localStorage s k))"

definition setItem :: "env \<Rightarrow> state \<Rightarrow> string \<Rightarrow> string \<Rightarrow> error + state" where
  "setItem e s k v =
     (if setItem_throws e then Inl QuotaExceededError
      else Inr (s\<lparr>localStorage := (localStorage s)(k \<mapsto> v)\<rparr>))"

definition parse :: "platform \<Rightarrow> string \<Rightarrow> error + json" where
  "parse P raw = (case JSON_parse P raw of None \<Rightarrow> Inl SyntaxError | Some v \<Rightarrow> Inr v)"

text \<open>Lines 52-62. Every exception is caught and becomes \<^verbatim>\<open>null\<close>.\<close>

definition readLocalCache :: "platform \<Rightarrow> env \<Rightarrow> string \<Rightarrow> state \<Rightarrow> json" where
  "readLocalCache P e url s =
     (case getItem e s (lsKey url) of
        Inl err \<Rightarrow> JNull
      | Inr None \<Rightarrow> JNull
      | Inr (Some raw) \<Rightarrow>
          (if raw = [] then JNull
           else (case parse P raw of
                   Inl err \<Rightarrow> JNull
                 | Inr parsed \<Rightarrow>
                     (if \<not> truthy (Some parsed) \<or> \<not> typeof_object parsed then JNull
                      else parsed))))"

text \<open>The object literal \<^verbatim>\<open>{ data, timestamp: Date.now() }\<close> of lines 66 and 115.\<close>

definition payload :: "json \<Rightarrow> int \<Rightarrow> json" where
  "payload data now = JObj [(''data'', data), (''timestamp'', JNum now)]"

text \<open>Lines 64-71. A failing write is ignored.\<close>

definition writeLocalCache :: "platform \<Rightarrow> env \<Rightarrow> string \<Rightarrow> json \<Rightarrow> state \<Rightarrow> state" where
  "writeLocalCache P e url data s =
     (case setItem e s (lsKey url) (JSON_stringify P (payload data (now4 e))) of
        Inl err \<Rightarrow> s
      | Inr s' \<Rightarrow> s')"

text \<open>\<^verbatim>\<open>Date.now() - ts < this.cacheTime\<close>; a comparison with \<^verbatim>\<open>NaN\<close> is false.\<close>

definition fresh :: "platform \<Rightarrow> int \<Rightarrow> jsval \<Rightarrow> error + bool" where
  "fresh P now ts =
     (case ToNumber P ts of
        Inl err \<Rightarrow> Inl err
      | Inr None \<Rightarrow> Inr False
      | Inr (Some t) \<Rightarrow> Inr (now - t < cacheTime))"

text \<open>Lines 82-85, step 1. \<open>None\<close>: the call goes on to step 2.\<close>

definition memoryCache :: "platform \<Rightarrow> env \<Rightarrow> string \<Rightarrow> state \<Rightarrow> outcome option" where
  "memoryCache P e cacheKey s =
     (case cache s cacheKey of
        None \<Rightarrow> None
      | Some cached \<Rightarrow>
          (if truthy (Some cached) then
             (case fresh P (now1 e) (property cached ''timestamp'') of
                Inl err \<Rightarrow> Some (Throws err)
              | Inr True \<Rightarrow> Some (Returns (property cached ''data''))
              | Inr False \<Rightarrow> None)
           else None))"

text \<open>Lines 92-96, step 2 after the read. \<open>None\<close>: the call goes on to step 3.\<close>

definition localCache ::
  "platform \<Rightarrow> env \<Rightarrow> string \<Rightarrow> json \<Rightarrow> state \<Rightarrow> (outcome \<times> state) option" where
  "localCache P e cacheKey local s =
     (if truthy (Some local) then
        (case fresh P (now2 e) (property local ''timestamp'') of
           Inl err \<Rightarrow> Some (Throws err, s)
         | Inr True \<Rightarrow>
             Some (Returns (property local ''data''), s\<lparr>cache := (cache s)(cacheKey \<mapsto> local)\<rparr>)
         | Inr False \<Rightarrow> None)
      else None)"

definition response_ok :: "nat \<Rightarrow> bool" where
  "response_ok status = (200 \<le> status \<and> status \<le> 299)"

text \<open>Lines 101-112: the request and the parsing of its body, inside \<^verbatim>\<open>try\<close>.\<close>

definition request :: "platform \<Rightarrow> env \<Rightarrow> error + json" where
  "request P e =
     (case fetched e of
        Rejected \<Rightarrow> Inl FetchFailed
      | Resolved status body \<Rightarrow>
          (if \<not> response_ok status then Inl (ApiError status) else parse P body))"

text \<open>Lines 124-129, step 4: the \<^verbatim>\<open>catch\<close> block.\<close>

definition staleFallback :: "bool \<Rightarrow> json \<Rightarrow> jsval" where
  "staleFallback useCache local =
     (if useCache \<and> truthy (Some local) \<and> truthy (property local ''data'')
      then property local ''data'' else Some JNull)"

text \<open>Lines 115-117: the write to both tiers.\<close>

definition writeThrough :: "platform \<Rightarrow> env \<Rightarrow> string \<Rightarrow> json \<Rightarrow> state \<Rightarrow> state" where
  "writeThrough P e url data s =
     writeLocalCache P e url data (s\<lparr>cache := (cache s)(url \<mapsto> payload data (now3 e))\<rparr>)"

text \<open>Lines 100-130, step 3 with its \<^verbatim>\<open>catch\<close>.\<close>

definition networkFetch ::
  "platform \<Rightarrow> env \<Rightarrow> string \<Rightarrow> bool \<Rightarrow> json \<Rightarrow> state \<Rightarrow> outcome \<times> state" where
  "networkFetch P e url useCache local s =
     (let s1 = s\<lparr>requests := requests s @ [url]\<rparr> in
      case request P e of
        Inl err \<Rightarrow> (Returns (staleFallback useCache local), s1)
      | Inr data \<Rightarrow>
          (if useCache then (Returns (Some data), writeThrough P e url data s1)
           else (Returns (Some data), s1)))"

text \<open>Lines 77-131.\<close>

definition fetchJson ::
  "platform \<Rightarrow> env \<Rightarrow> string \<Rightarrow> bool \<Rightarrow> state \<Rightarrow> outcome \<times> state" where
  "fetchJson P e url useCache s =
     (let cacheKey = url in
      case (if useCache then memoryCache P e cacheKey s else None) of
        Some out \<Rightarrow> (out, s)
      | None \<Rightarrow>
          (let local = (if useCache then readLocalCache P e url s else JNull) in
           case (if useCache then localCache P e cacheKey local s else None) of
             Some res \<Rightarrow> res
           | None \<Rightarrow> networkFetch P e url useCache local s))"

section \<open>The troubleshooting page (assets/js/pages.js)\<close>

text \<open>
  An issue as the GitHub API returns it, with the fields \<^verbatim>\<open>renderTroubleshooting\<close>
  reads. Each may be missing or \<^verbatim>\<open>null\<close> (\<open>None\<close>); a field that is present has
  the type GitHub's schema gives it. Strings are byte strings, and \<^verbatim>\<open>toLowerCase\<close>
  is modelled on ASCII letters.
\<close>

record label =
  label_name :: "string option"

record issue =
  issue_id :: jsval
  issue_number :: jsval
  issue_title :: "string option"
  issue_body :: "string option"
  issue_html_url :: jsval
  issue_labels :: "label list option"
  issue_pull_request :: jsval

text \<open>The object built at lines 315-323.\<close>

record item =
  ident :: jsval
  number :: jsval
  title :: string
  body :: string
  html_url :: jsval
  labels :: "string list"
  category :: string

definition lower :: "char \<Rightarrow> char" where
  "lower c =
     (case map_of (zip ''ABCDEFGHIJKLMNOPQRSTUVWXYZ'' ''abcdefghijklmnopqrstuvwxyz'') c of
        None \<Rightarrow> c
      | Some l \<Rightarrow> l)"

definition toLowerCase :: "string \<Rightarrow> string" where
  "toLowerCase s = map lower s"

text \<open>\<^verbatim>\<open>s.includes(q)\<close> on strings: \<open>q\<close> occurs in \<open>s\<close>.\<close>

fun str_includes :: "string \<Rightarrow> string \<Rightarrow> bool" where
  "str_includes [] q = (q = [])"
| "str_includes (c # s) q = (prefix q (c # s) \<or> str_includes s q)"

text \<open>\<^verbatim>\<open>x || ""\<close> on an optional string.\<close>

fun or_empty :: "string option \<Rightarrow> string" where
  "or_empty None = []"
| "or_empty (Some s) = s"

text \<open>Lines 309-313.\<close>

definition derive_category :: "string list \<Rightarrow> string" where
  "derive_category ls =
     (if ''windows'' \<in> set ls then ''windows''
      else if ''macos'' \<in> set ls \<or> ''mac'' \<in> set ls then ''macos''
      else if ''pro'' \<in> set ls then ''pro''
      else if ''macro'' \<in> set ls then ''macro''
      else ''macro'')"

text \<open>Lines 302-324: the function mapped over the issues.\<close>

definition normalize_issue :: "issue \<Rightarrow> item" where
  "normalize_issue i =
     (let title = or_empty (issue_title i);
          body = or_empty (issue_body i);
          labels = map (\<lambda>l. toLowerCase (or_empty (label_name l)))
                     (case issue_labels i of None \<Rightarrow> [] | Some ls \<Rightarrow> ls)
      in \<lparr>ident = issue_id i, number = issue_number i, title = title, body = body,
          html_url = issue_html_url i, labels = labels, category = derive_category labels\<rparr>)"

text \<open>Lines 300-324.\<close>

definition normalized :: "issue list \<Rightarrow> item list" where
  "normalized issues = map normalize_issue (filter (\<lambda>i. \<not> truthy (issue_pull_request i)) issues)"

text \<open>Lines 326-337, with the variables \<^verbatim>\<open>activeCat\<close> and \<^verbatim>\<open>query\<close> it closes over.\<close>

definition matches :: "string \<Rightarrow> string \<Rightarrow> item \<Rightarrow> bool" where
  "matches activeCat query item =
     (let inCat = (if activeCat = ''all'' then True else category item = activeCat) in
      if \<not> inCat then False
      else if query = [] then True
      else (let q = toLowerCase query in
            str_includes (toLowerCase (title item)) q \<or>
            str_includes (toLowerCase (body item)) q \<or>
            list_ex (\<lambda>l. str_includes l q) (labels item)))"

text \<open>Line 347: the items \<^verbatim>\<open>renderItems\<close> shows, \<open>fixes\<close> being its \<^verbatim>\<open>normalized\<close>.\<close>

definition renderItems :: "item list \<Rightarrow> string \<Rightarrow> string \<Rightarrow> item list" where
  "renderItems fixes activeCat query = filter (matches activeCat query) fixes"

text \<open>
  The category derivation as the specification words it: rules tried in a fixed order,
  the first rule whose label occurs decides, \<open>macro\<close> when none does.
\<close>

definition category_rules :: "(string \<times> string) list" where
  "category_rules =
     [(''windows'', ''windows''), (''macos'', ''macos''), (''mac'', ''macos''),
      (''pro'', ''pro''), (''macro'', ''macro'')]"

definition first_match_category :: "string list \<Rightarrow> string" where
  "first_match_category ls =
     (case find (\<lambda>r. fst r \<in> set ls) category_rules of
        None \<Rightarrow> ''macro''
      | Some r \<Rightarrow> snd r)"

section \<open>Sequences of calls\<close>

text \<open>
  The number that \<^verbatim>\<open>this.cache[k].timestamp\<close> stands for in the comparison of
  line 83, when there is an entry and its timestamp converts to a number.
\<close>

definition entry_timestamp :: "platform \<Rightarrow> state \<Rightarrow> string \<Rightarrow> int option" where
  "entry_timestamp P s k =
     (case cache s k of
        None \<Rightarrow> None
      | Some c \<Rightarrow> (case ToNumber P (property c ''timestamp'') of Inl err \<Rightarrow> None | Inr n \<Rightarrow> n))"

text \<open>
  Calls of \<^verbatim>\<open>fetchJson\<close> one after the other on the same client, each with its own
  environment, URL and \<^verbatim>\<open>useCache\<close>. A call that throws leaves the client as it was.
\<close>

fun run :: "platform \<Rightarrow> (env \<times> string \<times> bool) list \<Rightarrow> state \<Rightarrow> state" where
  "run P [] s = s"
| "run P ((e, url, useCache) # calls) s = run P calls (snd (fetchJson P e url useCache s))"

text \<open>
  The call reaches line 116: it was made with \<^verbatim>\<open>useCache\<close>, issued its request,
  and the request succeeded, so that a network response is stored under the URL.
\<close>

definition stores_response :: "platform \<Rightarrow> env \<Rightarrow> string \<Rightarrow> bool \<Rightarrow> state \<Rightarrow> bool" where
  "stores_response P e url useCache s =
     (useCache \<and> requests (snd (fetchJson P e url useCache s)) \<noteq> requests s \<and>
      (case request P e of Inl err \<Rightarrow> False | Inr data \<Rightarrow> True))"

text \<open>No call of the sequence stores a network response under the key \<open>k\<close>.\<close>

fun quiet :: "platform \<Rightarrow> (env \<times> string \<times> bool) list \<Rightarrow> state \<Rightarrow> string \<Rightarrow> bool" where
  "quiet P [] s k = True"
| "quiet P ((e, url, useCache) # calls) s k =
     (\<not> (url = k \<and> stores_response P e url useCache s) \<and>
      quiet P calls (snd (fetchJson P e url useCache s)) k)"

text \<open>
  In every call of the sequence the clock reading of line 92 is not before that of
  line 83.
\<close>

definition steady :: "(env \<times> string \<times> bool) list \<Rightarrow> bool" where
  "steady calls = list_all (\<lambda>(e, url, useCache). now1 e \<le> now2 e) calls"

text \<open>
  An entry as the client writes it: an object with a \<^verbatim>\<open>data\<close> property and a
  \<^verbatim>\<open>timestamp\<close> property that is a number.
\<close>

definition entry_ok :: "json \<Rightarrow> bool" where
  "entry_ok c =
     (case property c ''data'' of
        None \<Rightarrow> False
      | Some d \<Rightarrow> (case property c ''timestamp'' of Some (JNum t) \<Rightarrow> True | _ \<Rightarrow> False))"

text \<open>Every entry in memory is such an entry.\<close>

definition memory_ok :: "state \<Rightarrow> bool" where
  "memory_ok s = (\<forall>k c. cache s k = Some c \<longrightarrow> entry_ok c)"

text \<open>
  A stored text that \<^verbatim>\<open>readLocalCache\<close> turns into \<^verbatim>\<open>null\<close> or into such an
  entry; a store that holds only such texts; and a platform on which the text written
  for an entry is such a text (as it is when \<^verbatim>\<open>JSON.parse\<close> inverts
  \<^verbatim>\<open>JSON.stringify\<close>).
\<close>

definition readable_ok :: "platform \<Rightarrow> string \<Rightarrow> bool" where
  "readable_ok P raw =
     (case JSON_parse P raw of
        None \<Rightarrow> True
      | Some v \<Rightarrow> v = JNull \<or> \<not> typeof_object v \<or> entry_ok v)"

definition storage_ok :: "platform \<Rightarrow> state \<Rightarrow> bool" where
  "storage_ok P s = (\<forall>k raw. localStorage s k = Some raw \<longrightarrow> readable_ok P raw)"

definition platform_ok :: "platform \<Rightarrow> bool" where
  "platform_ok P = (\<forall>d t. readable_ok P (JSON_stringify P (payload d t)))"

text \<open>What the calls of a sequence hand to their callers.\<close>

fun outcomes :: "platform \<Rightarrow> (env \<times> string \<times> bool) list \<Rightarrow> state \<Rightarrow> outcome list" where
  "outcomes P [] s = []"
| "outcomes P ((e, url, useCache) # calls) s =
     fst (fetchJson P e url useCache s) # outcomes P calls (snd (fetchJson P e url useCache s))"

section \<open>Concrete inputs\<close>

text \<open>
  The values of \<^verbatim>\<open>JSON.parse\<close> and \<^verbatim>\<open>JSON.stringify\<close> on the texts used in the
  examples below; none of the examples converts a string to a number.
\<close>

definition demo_parse :: "string \<Rightarrow> json option" where
  "demo_parse =
     map_of
       [(''[7]'', JArr [JNum 7]),
        (''{\"data\":[7],\"timestamp\":1000120}'', payload (JArr [JNum 7]) 1000120),
        (''{\"data\":[7],\"timestamp\":5}'', payload (JArr [JNum 7]) 5),
        (''{\"data\":[7],\"timestamp\":500000}'', payload (JArr [JNum 7]) 500000),
        (''{\"data\":0,\"timestamp\":5}'', payload (JNum 0) 5),
        (''{\"timestamp\":1000120}'', JObj [(''timestamp'', JNum 1000120)]),
        (''{\"data\":1,\"timestamp\":{\"toString\":1}}'',
         JObj [(''data'', JNum 1), (''timestamp'', JObj [(''toString'', JNum 1)])])]"

definition demo_stringify :: "json \<Rightarrow> string" where
  "demo_stringify v =
     (if v = payload (JArr [JNum 7]) 1000120 then ''{\"data\":[7],\"timestamp\":1000120}''
      else ''null'')"

definition demo_platform :: platform where
  "demo_platform =
     \<lparr>JSON_parse = demo_parse, JSON_stringify = demo_stringify, StringToNumber = (\<lambda>s. None)\<rparr>"

text \<open>A call at time 1000000 whose request is rejected, and one that is answered.\<close>

definition offline :: env where
  "offline =
     \<lparr>now1 = 1000000, now2 = 1000000, now3 = 1000120, now4 = 1000120,
      getItem_throws = False, setItem_throws = False, fetched = Rejected\<rparr>"

definition online :: env where
  "online = offline\<lparr>fetched := Resolved 200 ''[7]''\<rparr>"

text \<open>Five minutes after \<open>offline\<close> and \<open>online\<close>, the request rejected.\<close>

definition later :: env where
  "later = offline\<lparr>now1 := 1300000, now2 := 1300000, now3 := 1300120, now4 := 1300120\<rparr>"

text \<open>A new client with empty storage, and one that finds \<open>raw\<close> stored for the URL \<^verbatim>\<open>u\<close>.\<close>

definition new_client :: state where
  "new_client = \<lparr>cache = Map.empty, localStorage = Map.empty, requests = []\<rparr>"

definition stored :: "string \<Rightarrow> state" where
  "stored raw = new_client\<lparr>localStorage := [lsKey ''u'' \<mapsto> raw]\<rparr>"

text \<open>The client after its first call, answered at time 1000120, has written both tiers.\<close>

definition warm :: state where
  "warm =
     \<lparr>cache = [''u'' \<mapsto> payload (JArr [JNum 7]) 1000120],
      localStorage = [lsKey ''u'' \<mapsto> ''{\"data\":[7],\"timestamp\":1000120}''],
      requests = [''u'']\<rparr>"

text \<open>A client whose entry in memory is old while the stored one is recent.\<close>

definition stale_in_memory :: state where
  "stale_in_memory =
     (stored ''{\"data\":[7],\"timestamp\":1000120}'')\<lparr>cache := [''u'' \<mapsto> payload (JArr [JNum 7]) 5]\<rparr>"

text \<open>
  A call during which the clock is set back: it reads 1700000 at line 83 and 1000000 at
  line 92. The client it meets holds an entry of time 1100000 in memory and one of time
  500000 in storage.
\<close>

definition clock_back :: env where
  "clock_back = offline\<lparr>now1 := 1700000, now2 := 1000000\<rparr>"

definition newer_in_memory :: state where
  "newer_in_memory =
     (stored ''{\"data\":[7],\"timestamp\":500000}'')
       \<lparr>cache := [''u'' \<mapsto> payload (JArr [JNum 7]) 1100000]\<rparr>"

text \<open>The issues behind the records of the examples: a title and label names.\<close>

definition crash_issue :: issue where
  "crash_issue =
     \<lparr>issue_id = None, issue_number = None, issue_title = Some ''Crash on login'',
      issue_body = None, issue_html_url = None,
      issue_labels = Some [\<lparr>label_name = Some ''windows''\<rparr>, \<lparr>label_name = Some ''approved''\<rparr>],
      issue_pull_request = None\<rparr>"

definition mic_issue :: issue where
  "mic_issue =
     \<lparr>issue_id = None, issue_number = None, issue_title = Some ''Mic not detected'',
      issue_body = None, issue_html_url = None,
      issue_labels = Some [\<lparr>label_name = Some ''macos''\<rparr>],
      issue_pull_request = None\<rparr>"

text \<open>The records these two issues are normalized to.\<close>

definition crash_fix :: item where
  "crash_fix =
     \<lparr>ident = None, number = None, title = ''Crash on login'', body = [], html_url = None,
      labels = [''windows'', ''approved''], category = ''windows''\<rparr>"

definition mic_fix :: item where
  "mic_fix =
     \<lparr>ident = None, number = None, title = ''Mic not detected'', body = [], html_url = None,
      labels = [''macos''], category = ''macos''\<rparr>"

definition pro_windows_issue :: issue where
  "pro_windows_issue =
     \<lparr>issue_id = None, issue_number = None, issue_title = None,
      issue_body = None, issue_html_url = None,
      issue_labels = Some [\<lparr>label_name = Some ''pro''\<rparr>, \<lparr>label_name = Some ''windows''\<rparr>],
      issue_pull_request = None\<rparr>"

section \<open>Conversions, evaluated\<close>

lemma ToString_examples:
  "ToString (JArr [JNum 12, JNull, JArr [JStr ''a'', JBool True], JNum (- 305)]) =
     Inr ''12,,a,true,-305''"
  "ToString (JArr [JNum 12, JObj [(''toString'', JNum 1)]]) = Inl TypeError"
  "ToString (JObj [(''valueOf'', JNum 1)]) = Inr ''[object Object]''"
  by (simp_all add: NumberToString_def decimal.simps digit_def)

lemma ToNumber_examples:
  "ToNumber P (Some (JNum 1700000000000)) = Inr (Some 1700000000000)"
  "ToNumber P None = Inr None"
  "ToNumber P (Some (JObj [(''toString'', JNum 1)])) = Inl TypeError"
  by simp_all

section \<open>Freshness and the parts of a call\<close>

lemma fresh_num: "fresh P now (Some (JNum t)) = Inr (now - t < cacheTime)"
  by (simp add: fresh_def)

lemma property_payload:
  "property (payload d t) ''data'' = Some d"
  "property (payload d t) ''timestamp'' = Some (JNum t)"
  by (simp_all add: payload_def)

lemma truthy_payload: "truthy (Some (payload d t))"
  by (simp add: payload_def)

lemma property_falsy: "\<not> truthy (Some c) \<Longrightarrow> property c k = None"
  by (cases c) simp_all

lemma truthy_property: "truthy (property c k) \<Longrightarrow> truthy (Some c)"
  by (cases c) simp_all

lemma fresh_falsy: "\<not> truthy (Some c) \<Longrightarrow> fresh P now (property c k) = Inr False"
  by (simp add: property_falsy fresh_def)

lemma fresh_True_truthy: "fresh P now (property c ''timestamp'') = Inr True \<Longrightarrow> truthy (Some c)"
  by (cases c) (simp_all add: fresh_def)

lemma fetchJson_True:
  "fetchJson P e url True s =
     (case memoryCache P e url s of
        Some out \<Rightarrow> (out, s)
      | None \<Rightarrow>
          (case localCache P e url (readLocalCache P e url s) s of
             Some res \<Rightarrow> res
           | None \<Rightarrow> networkFetch P e url True (readLocalCache P e url s) s))"
  by (simp add: fetchJson_def Let_def split: option.splits)

lemma fetchJson_False:
  "fetchJson P e url False s =
     (Returns (Some (case request P e of Inl err \<Rightarrow> JNull | Inr data \<Rightarrow> data)),
      s\<lparr>requests := requests s @ [url]\<rparr>)"
  by (simp add: fetchJson_def networkFetch_def staleFallback_def split: sum.splits)

lemma memoryCache_None_iff:
  "memoryCache P e url s = None \<longleftrightarrow>
     cache s url = None \<or>
     (\<exists>c. cache s url = Some c \<and> fresh P (now1 e) (property c ''timestamp'') = Inr False)"
  by (auto simp: memoryCache_def fresh_falsy split: option.splits sum.splits bool.splits)

lemma localCache_None_iff:
  "localCache P e url local s = None \<longleftrightarrow>
     fresh P (now2 e) (property local ''timestamp'') = Inr False"
  by (auto simp: localCache_def fresh_falsy split: sum.splits bool.splits)

lemma localCache_requests:
  "localCache P e url local s = Some (out, s') \<Longrightarrow> requests s' = requests s"
  by (auto simp: localCache_def split: sum.splits bool.splits if_splits)

lemma localCache_throws:
  "localCache P e url local s = Some (Throws err, s') \<Longrightarrow> s' = s"
  by (auto simp: localCache_def split: sum.splits if_splits bool.splits)

lemma localCache_other:
  "localCache P e url local s = Some (out, s') \<Longrightarrow> k \<noteq> url \<Longrightarrow> cache s' k = cache s k"
  by (auto simp: localCache_def split: sum.splits if_splits bool.splits)

lemma writeThrough_cache:
  "cache (writeThrough P e url data s) = (cache s)(url \<mapsto> payload data (now3 e))"
  by (simp add: writeThrough_def writeLocalCache_def setItem_def)

lemma writeThrough_requests:
  "requests (writeThrough P e url data s) = requests s"
  by (simp add: writeThrough_def writeLocalCache_def setItem_def)

lemma writeThrough_localStorage:
  "localStorage (writeThrough P e url data s) =
     (if setItem_throws e then localStorage s
      else (localStorage s)(lsKey url \<mapsto> JSON_stringify P (payload data (now4 e))))"
  by (simp add: writeThrough_def writeLocalCache_def setItem_def)

lemma networkFetch_requests:
  "requests (snd (networkFetch P e url useCache local s)) = requests s @ [url]"
  by (simp add: networkFetch_def writeThrough_requests Let_def split: sum.splits)

lemma networkFetch_other:
  "k \<noteq> url \<Longrightarrow> cache (snd (networkFetch P e url useCache local s)) k = cache s k"
  by (simp add: networkFetch_def Let_def writeThrough_cache split: sum.splits)

lemma memoryCache_payload:
  "cache s url = Some (payload data t) \<Longrightarrow> now1 e - t < cacheTime \<Longrightarrow>
     memoryCache P e url s = Some (Returns (Some data))"
  by (simp add: memoryCache_def property_payload fresh_num truthy_payload)

text \<open>A call with \<^verbatim>\<open>useCache\<close> that issues a request has passed steps 1 and 2.\<close>

lemma fetchJson_request_issued:
  assumes "requests (snd (fetchJson P e url True s)) \<noteq> requests s"
  shows "memoryCache P e url s = None"
    and "localCache P e url (readLocalCache P e url s) s = None"
    and "fetchJson P e url True s = networkFetch P e url True (readLocalCache P e url s) s"
proof -
  show m: "memoryCache P e url s = None"
    using assms by (auto simp: fetchJson_True split: option.splits)
  show l: "localCache P e url (readLocalCache P e url s) s = None"
    using assms m by (auto simp: fetchJson_True dest: localCache_requests split: option.splits)
  show "fetchJson P e url True s = networkFetch P e url True (readLocalCache P e url s) s"
    by (simp add: fetchJson_True m l)
qed

subsection \<open>The examples, evaluated\<close>

lemma readLocalCache_object:
  "\<not> getItem_throws e \<Longrightarrow> localStorage s (lsKey url) = Some raw \<Longrightarrow> raw \<noteq> [] \<Longrightarrow>
     JSON_parse P raw = Some (JObj kvs) \<Longrightarrow> readLocalCache P e url s = JObj kvs"
  by (simp add: readLocalCache_def getItem_def parse_def)

lemma readLocalCache_stored:
  "\<not> getItem_throws e \<Longrightarrow> raw \<noteq> [] \<Longrightarrow> demo_parse raw = Some (JObj kvs) \<Longrightarrow>
     readLocalCache demo_platform e ''u'' (stored raw) = JObj kvs"
  by (rule readLocalCache_object [where raw = raw])
     (simp_all add: stored_def new_client_def demo_platform_def)

lemma reads_succeed:
  "\<not> getItem_throws offline" "\<not> getItem_throws later" "\<not> getItem_throws clock_back"
  by (simp_all add: offline_def later_def clock_back_def)

lemma demo_parse_simps:
  "demo_parse ''[7]'' = Some (JArr [JNum 7])"
  "demo_parse ''{\"data\":[7],\"timestamp\":1000120}'' = Some (payload (JArr [JNum 7]) 1000120)"
  "demo_parse ''{\"data\":[7],\"timestamp\":5}'' = Some (payload (JArr [JNum 7]) 5)"
  "demo_parse ''{\"data\":[7],\"timestamp\":500000}'' = Some (payload (JArr [JNum 7]) 500000)"
  "demo_parse ''{\"data\":0,\"timestamp\":5}'' = Some (payload (JNum 0) 5)"
  "demo_parse ''{\"timestamp\":1000120}'' = Some (JObj [(''timestamp'', JNum 1000120)])"
  "demo_parse ''{\"data\":1,\"timestamp\":{\"toString\":1}}'' =
     Some (JObj [(''data'', JNum 1), (''timestamp'', JObj [(''toString'', JNum 1)])])"
  by (simp_all add: demo_parse_def)

lemma request_offline: "request demo_platform offline = Inl FetchFailed"
  by (simp add: request_def offline_def)

lemma request_online: "request demo_platform online = Inr (JArr [JNum 7])"
  by (simp add: request_def online_def offline_def response_ok_def parse_def
        demo_platform_def demo_parse_simps)

lemma offline_times: "now1 offline = 1000000" "now2 offline = 1000000" "now3 offline = 1000120"
  by (simp_all add: offline_def)

lemma online_times:
  "now1 online = 1000000" "now2 online = 1000000" "now3 online = 1000120" "now4 online = 1000120"
  by (simp_all add: online_def offline_def)

lemma memoryCache_stored: "memoryCache P e ''u'' (stored raw) = None"
  by (simp add: memoryCache_def stored_def new_client_def)

lemma later_times: "now1 later = 1300000" "now2 later = 1300000"
  by (simp_all add: later_def offline_def)

lemma fetchJson_stale_entry:
  "fetchJson demo_platform offline ''u'' True (stored ''{\"data\":[7],\"timestamp\":5}'') =
     (Returns (Some (JArr [JNum 7])),
      stored ''{\"data\":[7],\"timestamp\":5}''\<lparr>requests := [''u'']\<rparr>)"
proof -
  let ?s = "stored ''{\"data\":[7],\"timestamp\":5}''"
  let ?l = "payload (JArr [JNum 7]) 5"
  have r: "readLocalCache demo_platform offline ''u'' ?s = ?l"
    by (simp add: readLocalCache_stored reads_succeed demo_parse_simps payload_def)
  have l: "localCache demo_platform offline ''u'' ?l ?s = None"
    by (simp add: localCache_def truthy_payload property_payload fresh_num offline_times
          cacheTime_def)
  have n: "networkFetch demo_platform offline ''u'' True ?l ?s =
      (Returns (Some (JArr [JNum 7])), ?s\<lparr>requests := [''u'']\<rparr>)"
    by (simp add: networkFetch_def request_offline staleFallback_def truthy_payload
          property_payload stored_def new_client_def)
  show ?thesis
    by (simp add: fetchJson_True memoryCache_stored r l n)
qed

lemma fetchJson_zero_entry:
  "fetchJson demo_platform offline ''u'' True (stored ''{\"data\":0,\"timestamp\":5}'') =
     (Returns (Some JNull), stored ''{\"data\":0,\"timestamp\":5}''\<lparr>requests := [''u'']\<rparr>)"
proof -
  let ?s = "stored ''{\"data\":0,\"timestamp\":5}''"
  let ?l = "payload (JNum 0) 5"
  have r: "readLocalCache demo_platform offline ''u'' ?s = ?l"
    by (simp add: readLocalCache_stored reads_succeed demo_parse_simps payload_def)
  have l: "localCache demo_platform offline ''u'' ?l ?s = None"
    by (simp add: localCache_def truthy_payload property_payload fresh_num offline_times
          cacheTime_def)
  have n: "networkFetch demo_platform offline ''u'' True ?l ?s =
      (Returns (Some JNull), ?s\<lparr>requests := [''u'']\<rparr>)"
    by (simp add: networkFetch_def request_offline staleFallback_def truthy_payload
          property_payload stored_def new_client_def)
  show ?thesis
    by (simp add: fetchJson_True memoryCache_stored r l n)
qed

lemma writeThrough_online:
  "writeThrough demo_platform online ''u'' (JArr [JNum 7]) (new_client\<lparr>requests := rs\<rparr>) =
     warm\<lparr>requests := rs\<rparr>"
  by (simp add: writeThrough_def writeLocalCache_def setItem_def online_times new_client_def
        demo_platform_def demo_stringify_def warm_def)
     (simp add: online_def offline_def)

lemma fetchJson_online_new:
  "fetchJson demo_platform online ''u'' True new_client = (Returns (Some (JArr [JNum 7])), warm)"
proof -
  have m: "memoryCache demo_platform online ''u'' new_client = None"
    by (simp add: memoryCache_def new_client_def)
  have r: "readLocalCache demo_platform online ''u'' new_client = JNull"
    by (simp add: readLocalCache_def getItem_def new_client_def online_def offline_def)
  have l: "localCache demo_platform online ''u'' JNull new_client = None"
    by (simp add: localCache_def)
  have "warm\<lparr>requests := [''u'']\<rparr> = warm"
    by (simp add: warm_def)
  with writeThrough_online [of "[''u'']"]
  have n: "networkFetch demo_platform online ''u'' True JNull new_client =
      (Returns (Some (JArr [JNum 7])), warm)"
    by (simp add: networkFetch_def request_online new_client_def)
  show ?thesis
    by (simp add: fetchJson_True m r l n)
qed

lemma stale_in_memory_steps:
  "cache stale_in_memory ''u'' = Some (payload (JArr [JNum 7]) 5)"
  "memoryCache demo_platform later ''u'' stale_in_memory = None"
  "readLocalCache demo_platform later ''u'' stale_in_memory = payload (JArr [JNum 7]) 1000120"
  "localCache demo_platform later ''u'' (payload (JArr [JNum 7]) 1000120) stale_in_memory =
     Some (Returns (Some (JArr [JNum 7])),
           stale_in_memory\<lparr>cache := [''u'' \<mapsto> payload (JArr [JNum 7]) 1000120]\<rparr>)"
proof -
  show c: "cache stale_in_memory ''u'' = Some (payload (JArr [JNum 7]) 5)"
    by (simp add: stale_in_memory_def)
  show "memoryCache demo_platform later ''u'' stale_in_memory = None"
    by (simp add: memoryCache_def c truthy_payload property_payload fresh_num later_times
          cacheTime_def)
  have "readLocalCache demo_platform later ''u'' stale_in_memory =
      JObj [(''data'', JArr [JNum 7]), (''timestamp'', JNum 1000120)]"
    by (rule readLocalCache_object [where raw = "''{\"data\":[7],\"timestamp\":1000120}''"])
       (simp_all add: stale_in_memory_def stored_def new_client_def demo_platform_def
          reads_succeed demo_parse_simps payload_def)
  then show "readLocalCache demo_platform later ''u'' stale_in_memory =
      payload (JArr [JNum 7]) 1000120"
    by (simp add: payload_def)
  show "localCache demo_platform later ''u'' (payload (JArr [JNum 7]) 1000120) stale_in_memory =
     Some (Returns (Some (JArr [JNum 7])),
           stale_in_memory\<lparr>cache := [''u'' \<mapsto> payload (JArr [JNum 7]) 1000120]\<rparr>)"
    by (simp add: localCache_def truthy_payload property_payload fresh_num later_times
          cacheTime_def)
       (simp add: stale_in_memory_def)
qed

section \<open>The claims about the client\<close>

text \<open>
  Claim C1, as amended. Suppose a call issues its request and the request fails (the
  fetch is rejected, the status is not 2xx, or the body does not parse). If
  \<^verbatim>\<open>useCache\<close> is true and the entry read from \<^verbatim>\<open>localStorage\<close> at the start of
  the call has truthy data, the call returns that data, however old the entry is. If
  \<^verbatim>\<open>useCache\<close> is false, or no entry could be read, the call returns \<^verbatim>\<open>null\<close>.
\<close>

theorem stale_fallback:
  assumes issued: "requests (snd (fetchJson P e url useCache s)) \<noteq> requests s"
    and failed: "request P e = Inl err"
  shows "(useCache \<and> truthy (property (readLocalCache P e url s) ''data'') \<longrightarrow>
            fst (fetchJson P e url useCache s) =
              Returns (property (readLocalCache P e url s) ''data''))
         \<and> (\<not> useCache \<or> readLocalCache P e url s = JNull \<longrightarrow>
            fst (fetchJson P e url useCache s) = Returns (Some JNull))"
proof (cases useCache)
  case False
  then show ?thesis by (simp add: fetchJson_False failed)
next
  case True
  with issued have "requests (snd (fetchJson P e url True s)) \<noteq> requests s"
    by simp
  then have "fetchJson P e url True s =
      networkFetch P e url True (readLocalCache P e url s) s"
    by (rule fetchJson_request_issued)
  then have "fst (fetchJson P e url True s) =
      Returns (staleFallback True (readLocalCache P e url s))"
    by (simp add: networkFetch_def failed Let_def)
  then show ?thesis using True
    by (auto simp: staleFallback_def dest: truthy_property)
qed

theorem stale_fallback_witness:
  "requests (snd (fetchJson demo_platform offline ''u'' True
       (stored ''{\"data\":[7],\"timestamp\":5}''))) \<noteq>
     requests (stored ''{\"data\":[7],\"timestamp\":5}'')
   \<and> request demo_platform offline = Inl FetchFailed
   \<and> truthy (property (readLocalCache demo_platform offline ''u''
        (stored ''{\"data\":[7],\"timestamp\":5}'')) ''data'')
   \<and> fst (fetchJson demo_platform offline ''u'' True (stored ''{\"data\":[7],\"timestamp\":5}'')) =
       Returns (Some (JArr [JNum 7]))
   \<and> fst (fetchJson demo_platform offline ''u'' False (stored ''{\"data\":[7],\"timestamp\":5}'')) =
       Returns (Some JNull)"
proof -
  let ?s = "stored ''{\"data\":[7],\"timestamp\":5}''"
  have r: "readLocalCache demo_platform offline ''u'' ?s = payload (JArr [JNum 7]) 5"
    by (simp add: readLocalCache_stored reads_succeed demo_parse_simps payload_def)
  have i: "requests (snd (fetchJson demo_platform offline ''u'' True ?s)) \<noteq> requests ?s"
    by (simp add: fetchJson_stale_entry) (simp add: stored_def new_client_def)
  have j: "requests (snd (fetchJson demo_platform offline ''u'' False ?s)) \<noteq> requests ?s"
    by (simp add: fetchJson_False)
  have t: "truthy (property (readLocalCache demo_platform offline ''u'' ?s) ''data'')"
    by (simp add: r property_payload)
  from stale_fallback [OF i request_offline] t
  have "fst (fetchJson demo_platform offline ''u'' True ?s) = Returns (Some (JArr [JNum 7]))"
    by (simp add: r property_payload)
  moreover from stale_fallback [OF j request_offline]
  have "fst (fetchJson demo_platform offline ''u'' False ?s) = Returns (Some JNull)"
    by simp
  ultimately show ?thesis using i t request_offline by simp
qed

text \<open>
  Claim C1 as stated fails twice. With \<^verbatim>\<open>useCache\<close> false the stored entry (data
  \<^verbatim>\<open>[7]\<close>) is never read and the failing call returns \<^verbatim>\<open>null\<close>. With
  \<^verbatim>\<open>useCache\<close> true and a stored entry whose data is \<^verbatim>\<open>0\<close>, the failing call
  returns \<^verbatim>\<open>null\<close>, not \<^verbatim>\<open>0\<close>.
\<close>

theorem stale_fallback_counterexample:
  "request demo_platform offline = Inl FetchFailed
   \<and> readLocalCache demo_platform offline ''u'' (stored ''{\"data\":[7],\"timestamp\":5}'') =
       payload (JArr [JNum 7]) 5
   \<and> fetchJson demo_platform offline ''u'' False (stored ''{\"data\":[7],\"timestamp\":5}'') =
       (Returns (Some JNull), stored ''{\"data\":[7],\"timestamp\":5}''\<lparr>requests := [''u'']\<rparr>)
   \<and> readLocalCache demo_platform offline ''u'' (stored ''{\"data\":0,\"timestamp\":5}'') =
       payload (JNum 0) 5
   \<and> fetchJson demo_platform offline ''u'' True (stored ''{\"data\":0,\"timestamp\":5}'') =
       (Returns (Some JNull), stored ''{\"data\":0,\"timestamp\":5}''\<lparr>requests := [''u'']\<rparr>)"
proof -
  have "readLocalCache demo_platform offline ''u'' (stored ''{\"data\":[7],\"timestamp\":5}'') =
      payload (JArr [JNum 7]) 5"
    by (simp add: readLocalCache_stored reads_succeed demo_parse_simps payload_def)
  moreover have
    "readLocalCache demo_platform offline ''u'' (stored ''{\"data\":0,\"timestamp\":5}'') =
      payload (JNum 0) 5"
    by (simp add: readLocalCache_stored reads_succeed demo_parse_simps payload_def)
  moreover have
    "fetchJson demo_platform offline ''u'' False (stored ''{\"data\":[7],\"timestamp\":5}'') =
       (Returns (Some JNull), stored ''{\"data\":[7],\"timestamp\":5}''\<lparr>requests := [''u'']\<rparr>)"
    by (simp add: fetchJson_False request_offline) (simp add: stored_def new_client_def)
  ultimately show ?thesis
    by (simp add: request_offline fetchJson_zero_entry)
qed

text \<open>
  Claim C2 says that every call returns a JSON value or \<^verbatim>\<open>null\<close> and never throws,
  whatever the network, JSON parsing and storage access do. It fails on a stored entry
  whose timestamp is an object with an own \<^verbatim>\<open>toString\<close> property:
  \<^verbatim>\<open>readLocalCache\<close> accepts the entry, and the subtraction of line 92, which is
  outside every \<^verbatim>\<open>try\<close>, throws a \<^verbatim>\<open>TypeError\<close> that \<^verbatim>\<open>fetchJson\<close> passes
  to its caller.
\<close>

theorem fetchJson_throws:
  "fetchJson demo_platform offline ''u'' True
     (stored ''{\"data\":1,\"timestamp\":{\"toString\":1}}'') =
     (Throws TypeError, stored ''{\"data\":1,\"timestamp\":{\"toString\":1}}'')"
proof -
  let ?s = "stored ''{\"data\":1,\"timestamp\":{\"toString\":1}}''"
  let ?l = "JObj [(''data'', JNum 1), (''timestamp'', JObj [(''toString'', JNum 1)])]"
  have r: "readLocalCache demo_platform offline ''u'' ?s = ?l"
    by (simp add: readLocalCache_stored reads_succeed demo_parse_simps)
  have l: "localCache demo_platform offline ''u'' ?l ?s = Some (Throws TypeError, ?s)"
    by (simp add: localCache_def fresh_def)
  show ?thesis
    by (simp add: fetchJson_True memoryCache_stored r l)
qed

text \<open>
  A stored entry that is recent and has no \<^verbatim>\<open>data\<close> property is answered at line
  95 with \<^verbatim>\<open>undefined\<close>, which is neither a JSON value nor \<^verbatim>\<open>null\<close>.
\<close>

lemma fetchJson_undefined:
  "fst (fetchJson demo_platform later ''u'' True (stored ''{\"timestamp\":1000120}'')) =
     Returns None"
proof -
  let ?s = "stored ''{\"timestamp\":1000120}''"
  let ?l = "JObj [(''timestamp'', JNum 1000120)]"
  have r: "readLocalCache demo_platform later ''u'' ?s = ?l"
    by (simp add: readLocalCache_stored reads_succeed demo_parse_simps)
  have l: "localCache demo_platform later ''u'' ?l ?s =
      Some (Returns None, ?s\<lparr>cache := (cache ?s)(''u'' \<mapsto> ?l)\<rparr>)"
    by (simp add: localCache_def fresh_num later_times cacheTime_def)
  show ?thesis
    by (simp add: fetchJson_True memoryCache_stored r l)
qed

text \<open>
  Claim C3. With \<^verbatim>\<open>useCache\<close> true: an entry in memory whose timestamp is less than
  ten minutes old is answered from memory, the client unchanged, so no request is issued;
  otherwise an entry read from \<^verbatim>\<open>localStorage\<close> that is less than ten minutes old is
  copied into memory and answered, again with no request; and a request is issued exactly
  when both checks come out false.
\<close>

theorem fetchJson_cache_order:
  "(cache s url = Some c \<and> fresh P (now1 e) (property c ''timestamp'') = Inr True \<longrightarrow>
      fetchJson P e url True s = (Returns (property c ''data''), s))
   \<and> ((cache s url = None \<or>
        (\<exists>c. cache s url = Some c \<and> fresh P (now1 e) (property c ''timestamp'') = Inr False)) \<and>
       readLocalCache P e url s = local \<and>
       fresh P (now2 e) (property local ''timestamp'') = Inr True \<longrightarrow>
      fetchJson P e url True s =
        (Returns (property local ''data''), s\<lparr>cache := (cache s)(url \<mapsto> local)\<rparr>))
   \<and> ((requests (snd (fetchJson P e url True s)) \<noteq> requests s) =
        ((cache s url = None \<or>
          (\<exists>c. cache s url = Some c \<and>
               fresh P (now1 e) (property c ''timestamp'') = Inr False)) \<and>
         fresh P (now2 e) (property (readLocalCache P e url s) ''timestamp'') = Inr False))
   \<and> fresh P now (Some (JNum t)) = Inr (now - t < 10 * 60 * 1000)"
proof (intro conjI impI)
  assume h: "cache s url = Some c \<and> fresh P (now1 e) (property c ''timestamp'') = Inr True"
  then have "truthy (Some c)" by (blast intro: fresh_True_truthy)
  with h show "fetchJson P e url True s = (Returns (property c ''data''), s)"
    by (simp add: fetchJson_def memoryCache_def)
next
  assume h: "(cache s url = None \<or>
        (\<exists>c. cache s url = Some c \<and> fresh P (now1 e) (property c ''timestamp'') = Inr False)) \<and>
       readLocalCache P e url s = local \<and>
       fresh P (now2 e) (property local ''timestamp'') = Inr True"
  then have m: "memoryCache P e url s = None"
    by (simp add: memoryCache_None_iff)
  from h have "truthy (Some local)" by (blast intro: fresh_True_truthy)
  with h m show "fetchJson P e url True s =
        (Returns (property local ''data''), s\<lparr>cache := (cache s)(url \<mapsto> local)\<rparr>)"
    by (simp add: fetchJson_True localCache_def)
next
  show "(requests (snd (fetchJson P e url True s)) \<noteq> requests s) =
        ((cache s url = None \<or>
          (\<exists>c. cache s url = Some c \<and>
               fresh P (now1 e) (property c ''timestamp'') = Inr False)) \<and>
         fresh P (now2 e) (property (readLocalCache P e url s) ''timestamp'') = Inr False)"
  proof
    assume "requests (snd (fetchJson P e url True s)) \<noteq> requests s"
    then have "memoryCache P e url s = None"
      and "localCache P e url (readLocalCache P e url s) s = None"
      by (rule fetchJson_request_issued)+
    then show "(cache s url = None \<or>
          (\<exists>c. cache s url = Some c \<and>
               fresh P (now1 e) (property c ''timestamp'') = Inr False)) \<and>
         fresh P (now2 e) (property (readLocalCache P e url s) ''timestamp'') = Inr False"
      by (simp add: memoryCache_None_iff localCache_None_iff)
  next
    assume "(cache s url = None \<or>
          (\<exists>c. cache s url = Some c \<and>
               fresh P (now1 e) (property c ''timestamp'') = Inr False)) \<and>
         fresh P (now2 e) (property (readLocalCache P e url s) ''timestamp'') = Inr False"
    then have "memoryCache P e url s = None"
      and "localCache P e url (readLocalCache P e url s) s = None"
      by (simp_all add: memoryCache_None_iff localCache_None_iff)
    then show "requests (snd (fetchJson P e url True s)) \<noteq> requests s"
      by (simp add: fetchJson_True networkFetch_requests)
  qed
next
  show "fresh P now (Some (JNum t)) = Inr (now - t < 10 * 60 * 1000)"
    by (simp add: fresh_def cacheTime_def)
qed

theorem fetchJson_cache_order_witness:
  "fetchJson demo_platform later ''u'' True warm = (Returns (Some (JArr [JNum 7])), warm)
   \<and> fetchJson demo_platform later ''u'' True stale_in_memory =
       (Returns (Some (JArr [JNum 7])),
        stale_in_memory\<lparr>cache := (cache stale_in_memory)
          (''u'' \<mapsto> payload (JArr [JNum 7]) 1000120)\<rparr>)
   \<and> requests (snd (fetchJson demo_platform offline ''u'' True
        (stored ''{\"data\":[7],\"timestamp\":5}''))) \<noteq>
       requests (stored ''{\"data\":[7],\"timestamp\":5}'')"
proof -
  let ?old = "stored ''{\"data\":[7],\"timestamp\":5}''"
  let ?new = "payload (JArr [JNum 7]) 1000120"
  have a: "cache warm ''u'' = Some ?new \<and>
      fresh demo_platform (now1 later) (property ?new ''timestamp'') = Inr True"
    by (simp add: warm_def property_payload fresh_num later_times cacheTime_def)
  have "fresh demo_platform (now1 later) (property (payload (JArr [JNum 7]) 5) ''timestamp'') =
      Inr False"
    by (simp add: property_payload fresh_num later_times cacheTime_def)
  then have b1: "cache stale_in_memory ''u'' = None \<or>
       (\<exists>c. cache stale_in_memory ''u'' = Some c \<and>
          fresh demo_platform (now1 later) (property c ''timestamp'') = Inr False)"
    by (simp add: stale_in_memory_steps)
  have b2: "fresh demo_platform (now2 later) (property ?new ''timestamp'') = Inr True"
    by (simp add: property_payload fresh_num later_times cacheTime_def)
  have r: "readLocalCache demo_platform offline ''u'' ?old = payload (JArr [JNum 7]) 5"
    by (simp add: readLocalCache_stored reads_succeed demo_parse_simps payload_def)
  have c1: "cache ?old ''u'' = None"
    by (simp add: stored_def new_client_def)
  have c2: "fresh demo_platform (now2 offline)
        (property (readLocalCache demo_platform offline ''u'' ?old) ''timestamp'') = Inr False"
    by (simp add: r property_payload fresh_num offline_times cacheTime_def)
  note inst = fetchJson_cache_order [where P = demo_platform and url = "''u''"]
  from a inst [where s = warm and e = later and c = ?new]
  have "fetchJson demo_platform later ''u'' True warm = (Returns (property ?new ''data''), warm)"
    by blast
  then have one: "fetchJson demo_platform later ''u'' True warm =
      (Returns (Some (JArr [JNum 7])), warm)"
    by (simp add: property_payload)
  from b1 b2 stale_in_memory_steps(3)
    inst [where s = stale_in_memory and e = later and local = ?new]
  have "fetchJson demo_platform later ''u'' True stale_in_memory =
       (Returns (property ?new ''data''),
        stale_in_memory\<lparr>cache := (cache stale_in_memory)(''u'' \<mapsto> ?new)\<rparr>)"
    by blast
  then have two: "fetchJson demo_platform later ''u'' True stale_in_memory =
       (Returns (Some (JArr [JNum 7])),
        stale_in_memory\<lparr>cache := (cache stale_in_memory)(''u'' \<mapsto> ?new)\<rparr>)"
    by (simp add: property_payload)
  from c1 c2 inst [where s = ?old and e = offline]
  have "requests (snd (fetchJson demo_platform offline ''u'' True ?old)) \<noteq> requests ?old"
    by blast
  with one two show ?thesis by simp
qed

text \<open>
  Claim C4. Two calls for the same URL with \<^verbatim>\<open>useCache\<close> true, the first answered
  over the network with \<open>data\<close>, the second starting less than ten minutes after the
  first stored its entry: both return \<open>data\<close>, the second leaves the client as it is,
  and the request log has grown by exactly one request.
\<close>

theorem second_call_served_from_cache:
  assumes first: "fetchJson P e1 url True s = (r1, s1)"
    and network: "requests s1 \<noteq> requests s"
    and success: "request P e1 = Inr data"
    and soon: "now1 e2 - now3 e1 < cacheTime"
  shows "r1 = Returns (Some data) \<and>
         fetchJson P e2 url True s1 = (Returns (Some data), s1) \<and>
         requests s1 = requests s @ [url]"
proof -
  from first network have "requests (snd (fetchJson P e1 url True s)) \<noteq> requests s"
    by simp
  then have "fetchJson P e1 url True s = networkFetch P e1 url True (readLocalCache P e1 url s) s"
    by (rule fetchJson_request_issued)
  with first success have r1: "r1 = Returns (Some data)"
    and s1: "s1 = writeThrough P e1 url data (s\<lparr>requests := requests s @ [url]\<rparr>)"
    by (simp_all add: networkFetch_def Let_def)
  have "cache s1 url = Some (payload data (now3 e1))"
    by (simp add: s1 writeThrough_cache)
  then have "memoryCache P e2 url s1 = Some (Returns (Some data))"
    using soon by (rule memoryCache_payload)
  then have "fetchJson P e2 url True s1 = (Returns (Some data), s1)"
    by (simp add: fetchJson_True)
  moreover have "requests s1 = requests s @ [url]"
    by (simp add: s1 writeThrough_requests)
  ultimately show ?thesis using r1 by simp
qed

theorem second_call_served_from_cache_witness:
  "fetchJson demo_platform online ''u'' True new_client = (Returns (Some (JArr [JNum 7])), warm)
   \<and> requests warm \<noteq> requests new_client
   \<and> request demo_platform online = Inr (JArr [JNum 7])
   \<and> now1 later - now3 online < cacheTime
   \<and> fetchJson demo_platform later ''u'' True warm = (Returns (Some (JArr [JNum 7])), warm)
   \<and> requests warm = requests new_client @ [''u'']"
proof -
  have n: "requests warm \<noteq> requests new_client"
    by (simp add: warm_def new_client_def)
  have soon: "now1 later - now3 online < cacheTime"
    by (simp add: later_times online_times cacheTime_def)
  from second_call_served_from_cache [OF fetchJson_online_new n request_online soon]
  show ?thesis
    using fetchJson_online_new n request_online soon by simp
qed



subsection \<open>Timestamps in memory\<close>

lemma memoryCache_stale:
  assumes "memoryCache P e url s = None" "entry_timestamp P s url = Some t"
  shows "t + cacheTime \<le> now1 e"
  using assms
  by (auto simp: memoryCache_def entry_timestamp_def fresh_def property_falsy
           split: option.splits sum.splits if_splits bool.splits)

lemma localCache_hydrates:
  assumes "localCache P e url local s = Some (Returns v, s')"
  shows "\<exists>l. entry_timestamp P s' url = Some l \<and> now2 e - l < cacheTime"
  using assms
  by (auto simp: localCache_def entry_timestamp_def fresh_def
           split: option.splits sum.splits if_splits bool.splits)

lemma hydration_newer:
  assumes clock: "now1 e \<le> now2 e"
    and m: "memoryCache P e url s = None"
    and l: "localCache P e url local s = Some (Returns v, s')"
    and t: "entry_timestamp P s url = Some t"
  shows "\<exists>t'. entry_timestamp P s' url = Some t' \<and> t < t'"
proof -
  from m t have "t + cacheTime \<le> now1 e" by (rule memoryCache_stale)
  moreover from l obtain t' where
    t': "entry_timestamp P s' url = Some t'" "now2 e - t' < cacheTime"
    using localCache_hydrates by blast
  ultimately have "t < t'" using clock by linarith
  with t' show ?thesis by blast
qed

lemma fetchJson_other:
  assumes "k \<noteq> url"
  shows "cache (snd (fetchJson P e url useCache s)) k = cache s k"
proof (cases useCache)
  case False
  then show ?thesis by (simp add: fetchJson_False)
next
  case True
  show ?thesis
  proof (cases "memoryCache P e url s")
    case (Some out)
    then show ?thesis using True by (simp add: fetchJson_True)
  next
    case None
    show ?thesis
    proof (cases "localCache P e url (readLocalCache P e url s) s")
      case (Some res)
      then show ?thesis using True None assms
        by (cases res) (simp add: fetchJson_True localCache_other)
    next
      case N: None
      then show ?thesis using True None assms
        by (simp add: fetchJson_True networkFetch_other)
    qed
  qed
qed

text \<open>
  One call: unless it stores a network response under \<open>k\<close>, and provided its clock
  reading of line 92 is not before that of line 83, the timestamp under \<open>k\<close> does not
  decrease.
\<close>

lemma fetchJson_timestamp:
  assumes clock: "now1 e \<le> now2 e"
    and quiet: "\<not> (url = k \<and> stores_response P e url useCache s)"
    and t: "entry_timestamp P s k = Some t"
  shows "\<exists>t'. entry_timestamp P (snd (fetchJson P e url useCache s)) k = Some t' \<and> t \<le> t'"
proof (cases "k = url")
  case False
  then have "cache (snd (fetchJson P e url useCache s)) k = cache s k"
    by (rule fetchJson_other)
  with t show ?thesis by (simp add: entry_timestamp_def)
next
  case k: True
  show ?thesis
  proof (cases useCache)
    case False
    then show ?thesis using t by (simp add: fetchJson_False entry_timestamp_def)
  next
    case True
    show ?thesis
    proof (cases "memoryCache P e url s")
      case (Some out)
      then show ?thesis using True t by (simp add: fetchJson_True)
    next
      case None
      show ?thesis
      proof (cases "localCache P e url (readLocalCache P e url s) s")
        case N: None
        have issued: "requests (snd (fetchJson P e url True s)) \<noteq> requests s"
          using None N by (simp add: fetchJson_True networkFetch_requests)
        with quiet k True obtain err where "request P e = Inl err"
          by (cases "request P e") (auto simp: stores_response_def)
        then have "cache (snd (fetchJson P e url True s)) = cache s"
          using None N by (simp add: fetchJson_True networkFetch_def Let_def)
        then show ?thesis using True t by (simp add: entry_timestamp_def)
      next
        case (Some res)
        obtain out s' where res: "res = (out, s')" by (cases res)
        show ?thesis
        proof (cases out)
          case (Throws err)
          with Some res have "s' = s" by (simp add: localCache_throws)
          then show ?thesis using True None Some res t by (simp add: fetchJson_True)
        next
          case (Returns v)
          with clock None Some res t k
          have "\<exists>t'. entry_timestamp P s' url = Some t' \<and> t < t'"
            by (simp add: hydration_newer)
          then show ?thesis using True None Some res k by (auto simp: fetchJson_True)
        qed
      qed
    qed
  qed
qed

text \<open>
  Claim C9, as amended. Take any sequence of calls in each of which the clock reading of
  line 92 is not before that of line 83, and any key under which no call of the
  sequence stores a network response: the timestamp of the entry in memory under that
  key does not decrease over the sequence. In particular, in a call with such a clock,
  when step 2 copies a stored entry over an entry in memory, the new timestamp is
  greater than the old one.
\<close>

theorem timestamp_never_decreases:
  "(steady calls \<and> quiet P calls s k \<and> entry_timestamp P s k = Some t \<longrightarrow>
      (\<exists>t'. entry_timestamp P (run P calls s) k = Some t' \<and> t \<le> t'))
   \<and> (now1 e \<le> now2 e \<and> entry_timestamp P s url = Some t \<and>
       memoryCache P e url s = None \<and>
       localCache P e url local s = Some (Returns v, s') \<longrightarrow>
      (\<exists>t'. entry_timestamp P s' url = Some t' \<and> t < t'))"
proof (intro conjI impI)
  assume "steady calls \<and> quiet P calls s k \<and> entry_timestamp P s k = Some t"
  then have "steady calls" "quiet P calls s k" "entry_timestamp P s k = Some t"
    by simp_all
  then show "\<exists>t'. entry_timestamp P (run P calls s) k = Some t' \<and> t \<le> t'"
  proof (induction calls arbitrary: s t)
    case Nil
    then show ?case by simp
  next
    case (Cons c calls)
    obtain e url useCache where c: "c = (e, url, useCache)" by (cases c)
    let ?s1 = "snd (fetchJson P e url useCache s)"
    from Cons.prems(1) c have clock: "now1 e \<le> now2 e" and rest: "steady calls"
      by (simp_all add: steady_def)
    from Cons.prems(2) c have here: "\<not> (url = k \<and> stores_response P e url useCache s)"
      and after: "quiet P calls ?s1 k"
      by simp_all
    from fetchJson_timestamp [OF clock here Cons.prems(3)] obtain t1 where
      t1: "entry_timestamp P ?s1 k = Some t1" "t \<le> t1"
      by blast
    from Cons.IH [OF rest after t1(1)] obtain t' where
      "entry_timestamp P (run P calls ?s1) k = Some t'" "t1 \<le> t'"
      by blast
    with t1 c show ?case by auto
  qed
next
  assume "now1 e \<le> now2 e \<and> entry_timestamp P s url = Some t \<and>
       memoryCache P e url s = None \<and>
       localCache P e url local s = Some (Returns v, s')"
  then show "\<exists>t'. entry_timestamp P s' url = Some t' \<and> t < t'"
    by (blast intro: hydration_newer)
qed

theorem timestamp_never_decreases_witness:
  "steady [(later, ''u'', True), (later, ''u'', False)]
   \<and> quiet demo_platform [(later, ''u'', True), (later, ''u'', False)] stale_in_memory ''u''
   \<and> entry_timestamp demo_platform stale_in_memory ''u'' = Some 5
   \<and> entry_timestamp demo_platform
        (run demo_platform [(later, ''u'', True), (later, ''u'', False)] stale_in_memory) ''u'' =
       Some 1000120
   \<and> now1 later \<le> now2 later
   \<and> memoryCache demo_platform later ''u'' stale_in_memory = None
   \<and> localCache demo_platform later ''u'' (payload (JArr [JNum 7]) 1000120) stale_in_memory =
       Some (Returns (Some (JArr [JNum 7])),
             stale_in_memory\<lparr>cache := [''u'' \<mapsto> payload (JArr [JNum 7]) 1000120]\<rparr>)
   \<and> (\<exists>t'. entry_timestamp demo_platform
               (stale_in_memory\<lparr>cache := [''u'' \<mapsto> payload (JArr [JNum 7]) 1000120]\<rparr>) ''u'' =
             Some t' \<and> 5 < t')"
proof -
  let ?hyd = "stale_in_memory\<lparr>cache := [''u'' \<mapsto> payload (JArr [JNum 7]) 1000120]\<rparr>"
  let ?calls = "[(later, ''u'', True), (later, ''u'', False)]"
  have clock: "now1 later \<le> now2 later"
    by (simp add: later_times)
  then have st: "steady ?calls"
    by (simp add: steady_def)
  have t: "entry_timestamp demo_platform stale_in_memory ''u'' = Some 5"
    by (simp add: entry_timestamp_def stale_in_memory_steps property_payload)
  have first: "fetchJson demo_platform later ''u'' True stale_in_memory =
      (Returns (Some (JArr [JNum 7])), ?hyd)"
    by (simp add: fetchJson_True stale_in_memory_steps)
  have q: "quiet demo_platform ?calls stale_in_memory ''u''"
    by (simp add: stores_response_def first)
  have r: "run demo_platform ?calls stale_in_memory = ?hyd\<lparr>requests := requests ?hyd @ [''u'']\<rparr>"
    by (simp add: first fetchJson_False)
  have t': "entry_timestamp demo_platform (?hyd\<lparr>requests := requests ?hyd @ [''u'']\<rparr>) ''u'' =
      Some 1000120"
    by (simp add: entry_timestamp_def property_payload)
  note inst = timestamp_never_decreases [where P = demo_platform and s = stale_in_memory
      and t = 5 and url = "''u''" and e = later and s' = ?hyd
      and local = "payload (JArr [JNum 7]) 1000120" and v = "Some (JArr [JNum 7])"]
  from inst clock t stale_in_memory_steps(2,4)
  have "\<exists>t'. entry_timestamp demo_platform ?hyd ''u'' = Some t' \<and> 5 < t'"
    by blast
  moreover from inst [where k = "''u''" and calls = ?calls] st q t
  have "\<exists>t'. entry_timestamp demo_platform (run demo_platform ?calls stale_in_memory) ''u'' =
      Some t' \<and> 5 \<le> t'"
    by blast
  ultimately show ?thesis
    using st q clock t r t' stale_in_memory_steps(2,4) by simp
qed

text \<open>
  Claim C9 as stated fails when the clock is set back between lines 83 and 92. The
  entry in memory, of time 1100000, is found old at the reading 1700000; the stored
  entry, of time 500000, is found recent at the reading 1000000 and is copied over it.
  No request is issued, and the timestamp in memory falls from 1100000 to 500000.
\<close>

theorem timestamp_never_decreases_counterexample:
  "entry_timestamp demo_platform newer_in_memory ''u'' = Some 1100000
   \<and> fst (fetchJson demo_platform clock_back ''u'' True newer_in_memory) =
       Returns (Some (JArr [JNum 7]))
   \<and> requests (snd (fetchJson demo_platform clock_back ''u'' True newer_in_memory)) =
       requests newer_in_memory
   \<and> entry_timestamp demo_platform
        (snd (fetchJson demo_platform clock_back ''u'' True newer_in_memory)) ''u'' =
       Some 500000"
proof -
  let ?l = "payload (JArr [JNum 7]) 500000"
  have times: "now1 clock_back = 1700000" "now2 clock_back = 1000000"
    by (simp_all add: clock_back_def)
  have c: "cache newer_in_memory ''u'' = Some (payload (JArr [JNum 7]) 1100000)"
    by (simp add: newer_in_memory_def)
  have m: "memoryCache demo_platform clock_back ''u'' newer_in_memory = None"
    by (simp add: memoryCache_def c truthy_payload property_payload fresh_num times
          cacheTime_def)
  have "readLocalCache demo_platform clock_back ''u'' newer_in_memory =
      JObj [(''data'', JArr [JNum 7]), (''timestamp'', JNum 500000)]"
    by (rule readLocalCache_object [where raw = "''{\"data\":[7],\"timestamp\":500000}''"])
       (simp_all add: newer_in_memory_def stored_def new_client_def demo_platform_def
          reads_succeed demo_parse_simps payload_def)
  then have r: "readLocalCache demo_platform clock_back ''u'' newer_in_memory = ?l"
    by (simp add: payload_def)
  have l: "localCache demo_platform clock_back ''u'' ?l newer_in_memory =
      Some (Returns (Some (JArr [JNum 7])),
            newer_in_memory\<lparr>cache := (cache newer_in_memory)(''u'' \<mapsto> ?l)\<rparr>)"
    by (simp add: localCache_def truthy_payload property_payload fresh_num times cacheTime_def)
  have f: "fetchJson demo_platform clock_back ''u'' True newer_in_memory =
      (Returns (Some (JArr [JNum 7])),
       newer_in_memory\<lparr>cache := (cache newer_in_memory)(''u'' \<mapsto> ?l)\<rparr>)"
    by (simp add: fetchJson_True m r l)
  have "entry_timestamp demo_platform newer_in_memory ''u'' = Some 1100000"
    by (simp add: entry_timestamp_def c property_payload)
  then show ?thesis
    by (simp add: f entry_timestamp_def property_payload)
qed

text \<open>
  Claim C10. With \<^verbatim>\<open>useCache\<close> false a call issues its request, returns the parsed
  body when the request succeeds and \<^verbatim>\<open>null\<close> when it fails, and leaves
  \<^verbatim>\<open>this.cache\<close> and \<^verbatim>\<open>localStorage\<close> as they were, for every key. What it
  returns is the same for every content of the two tiers and whether or not
  \<^verbatim>\<open>localStorage\<close> can be accessed: neither tier is read.
\<close>

theorem fetchJson_without_cache:
  "fetchJson P e url False s =
     (Returns (Some (case request P e of Inl err \<Rightarrow> JNull | Inr data \<Rightarrow> data)),
      s\<lparr>requests := requests s @ [url]\<rparr>)
   \<and> cache (snd (fetchJson P e url False s)) = cache s
   \<and> localStorage (snd (fetchJson P e url False s)) = localStorage s
   \<and> fst (fetchJson P e url False s) =
       fst (fetchJson P (e\<lparr>getItem_throws := g, setItem_throws := w\<rparr>) url False s')"
  by (simp add: fetchJson_False request_def)

theorem fetchJson_without_cache_witness:
  "fetchJson demo_platform offline ''u'' False (stored ''{\"data\":[7],\"timestamp\":1000120}'') =
     (Returns (Some JNull), stored ''{\"data\":[7],\"timestamp\":1000120}''\<lparr>requests := [''u'']\<rparr>)
   \<and> fetchJson demo_platform online ''u'' False warm =
     (Returns (Some (JArr [JNum 7])), warm\<lparr>requests := [''u'', ''u'']\<rparr>)"
proof -
  from fetchJson_without_cache [of demo_platform offline "''u''"
      "stored ''{\"data\":[7],\"timestamp\":1000120}''"]
  have "fetchJson demo_platform offline ''u'' False (stored ''{\"data\":[7],\"timestamp\":1000120}'') =
     (Returns (Some JNull), stored ''{\"data\":[7],\"timestamp\":1000120}''\<lparr>requests := [''u'']\<rparr>)"
    by (simp add: request_offline) (simp add: stored_def new_client_def)
  moreover from fetchJson_without_cache [of demo_platform online "''u''" warm]
  have "fetchJson demo_platform online ''u'' False warm =
     (Returns (Some (JArr [JNum 7])), warm\<lparr>requests := [''u'', ''u'']\<rparr>)"
    by (simp add: request_online) (simp add: warm_def)
  ultimately show ?thesis by simp
qed

section \<open>Entries the client writes itself\<close>

lemma entry_ok_payload: "entry_ok (payload d t)"
  by (simp add: entry_ok_def payload_def)

lemma entry_ok_props:
  assumes "entry_ok c"
  obtains d t where "property c ''data'' = Some d" "property c ''timestamp'' = Some (JNum t)"
    "truthy (Some c)"
  using assms
  by (cases c) (auto simp: entry_ok_def split: option.splits json.splits)

lemma readLocalCache_ok:
  assumes "storage_ok P s"
  shows "readLocalCache P e url s = JNull \<or> entry_ok (readLocalCache P e url s)"
proof (cases "readLocalCache P e url s = JNull")
  case True
  then show ?thesis by simp
next
  case False
  then obtain raw where raw: "localStorage s (lsKey url) = Some raw"
    and p: "JSON_parse P raw = Some (readLocalCache P e url s)"
    and o: "typeof_object (readLocalCache P e url s)"
    by (auto simp: readLocalCache_def getItem_def parse_def
             split: if_splits option.splits sum.splits)
  from assms raw have "readable_ok P raw" by (auto simp: storage_ok_def)
  with p o False show ?thesis by (simp add: readable_ok_def)
qed

lemma memoryCache_ok:
  assumes "cache s url = None \<or> (\<exists>c. cache s url = Some c \<and> entry_ok c)"
  shows "memoryCache P e url s = None \<or> (\<exists>d. memoryCache P e url s = Some (Returns (Some d)))"
  using assms
  by (auto simp: memoryCache_def fresh_num split: bool.splits elim!: entry_ok_props)

lemma localCache_ok:
  assumes "local = JNull \<or> entry_ok local"
  shows "localCache P e url local s = None \<or>
     (\<exists>d. localCache P e url local s =
        Some (Returns (Some d), s\<lparr>cache := (cache s)(url \<mapsto> local)\<rparr>))"
  using assms
  by (auto simp: localCache_def fresh_num split: bool.splits elim!: entry_ok_props)

lemma staleFallback_ok:
  assumes "local = JNull \<or> entry_ok local"
  shows "\<exists>v. staleFallback useCache local = Some v"
  using assms
  by (auto simp: staleFallback_def elim!: entry_ok_props)

lemma networkFetch_ok:
  assumes "local = JNull \<or> entry_ok local"
  shows "\<exists>v. fst (networkFetch P e url useCache local s) = Returns (Some v)"
  using staleFallback_ok [OF assms, of useCache]
  by (auto simp: networkFetch_def Let_def split: sum.splits)

lemma fetchJson_ok:
  assumes mem: "cache s url = None \<or> (\<exists>c. cache s url = Some c \<and> entry_ok c)"
    and dur: "readLocalCache P e url s = JNull \<or> entry_ok (readLocalCache P e url s)"
  shows "\<exists>v. fst (fetchJson P e url useCache s) = Returns (Some v)"
proof (cases useCache)
  case False
  then show ?thesis by (simp add: fetchJson_False)
next
  case True
  from memoryCache_ok [OF mem, of P e] localCache_ok [OF dur, of P e url s]
    networkFetch_ok [OF dur, of P e url True s]
  show ?thesis using True
    by (auto simp: fetchJson_True)
qed

lemma writeThrough_ok:
  assumes "platform_ok P" "storage_ok P s" "memory_ok s"
  shows "storage_ok P (writeThrough P e url data s) \<and> memory_ok (writeThrough P e url data s)"
  using assms
  by (auto simp: storage_ok_def memory_ok_def platform_ok_def writeThrough_cache
        writeThrough_localStorage entry_ok_payload)

lemma networkFetch_preserves:
  assumes "platform_ok P" "storage_ok P s" "memory_ok s"
  shows "storage_ok P (snd (networkFetch P e url useCache local s)) \<and>
         memory_ok (snd (networkFetch P e url useCache local s))"
proof -
  let ?s1 = "s\<lparr>requests := requests s @ [url]\<rparr>"
  from assms have s1: "storage_ok P ?s1" "memory_ok ?s1"
    by (simp_all add: storage_ok_def memory_ok_def)
  show ?thesis
  proof (cases "request P e")
    case (Inl err)
    then show ?thesis using s1 by (simp add: networkFetch_def Let_def)
  next
    case (Inr data)
    then show ?thesis
      using s1 writeThrough_ok [OF assms(1) s1, of e url data]
      by (simp add: networkFetch_def Let_def)
  qed
qed

lemma fetchJson_preserves:
  assumes P: "platform_ok P" and st: "storage_ok P s" and mem: "memory_ok s"
  shows "storage_ok P (snd (fetchJson P e url useCache s)) \<and>
         memory_ok (snd (fetchJson P e url useCache s))"
proof (cases useCache)
  case False
  then show ?thesis using st mem
    by (simp add: fetchJson_False storage_ok_def memory_ok_def)
next
  case True
  let ?local = "readLocalCache P e url s"
  have dur: "?local = JNull \<or> entry_ok ?local"
    using st by (rule readLocalCache_ok)
  show ?thesis
  proof (cases "memoryCache P e url s")
    case (Some out)
    then show ?thesis using True st mem by (simp add: fetchJson_True)
  next
    case None
    show ?thesis
    proof (cases "localCache P e url ?local s")
      case N: None
      then show ?thesis
        using True None networkFetch_preserves [OF P st mem]
        by (simp add: fetchJson_True)
    next
      case (Some res)
      with localCache_ok [OF dur, of P e url s] obtain d where
        res: "res = (Returns (Some d), s\<lparr>cache := (cache s)(url \<mapsto> ?local)\<rparr>)"
        by auto
      from Some have "truthy (Some ?local)"
        by (auto simp: localCache_def split: if_splits)
      with dur have "entry_ok ?local" by auto
      with st mem have "storage_ok P (s\<lparr>cache := (cache s)(url \<mapsto> ?local)\<rparr>)"
        and "memory_ok (s\<lparr>cache := (cache s)(url \<mapsto> ?local)\<rparr>)"
        by (simp_all add: storage_ok_def memory_ok_def)
      then show ?thesis using True None Some res by (simp add: fetchJson_True)
    qed
  qed
qed

text \<open>
  When the entry in memory for the URL (if any) and the entry read from
  \<^verbatim>\<open>localStorage\<close> (if any) have a \<^verbatim>\<open>data\<close> property and a numeric timestamp,
  the call returns a JSON value: it neither throws nor returns \<^verbatim>\<open>undefined\<close>.
\<close>

theorem fetchJson_returns:
  assumes "cache s url = None \<or> (\<exists>c. cache s url = Some c \<and> entry_ok c)"
    and "readLocalCache P e url s = JNull \<or> entry_ok (readLocalCache P e url s)"
  shows "\<exists>v. fst (fetchJson P e url useCache s) = Returns (Some v)"
  using assms by (rule fetchJson_ok)

theorem fetchJson_returns_witness:
  "cache warm ''u'' = Some (payload (JArr [JNum 7]) 1000120)
   \<and> entry_ok (payload (JArr [JNum 7]) 1000120)
   \<and> readLocalCache demo_platform later ''u'' warm = payload (JArr [JNum 7]) 1000120
   \<and> (\<exists>v. fst (fetchJson demo_platform later ''u'' True warm) = Returns (Some v))"
proof -
  have c: "cache warm ''u'' = Some (payload (JArr [JNum 7]) 1000120)"
    by (simp add: warm_def)
  have "readLocalCache demo_platform later ''u'' warm =
      JObj [(''data'', JArr [JNum 7]), (''timestamp'', JNum 1000120)]"
    by (rule readLocalCache_object [where raw = "''{\"data\":[7],\"timestamp\":1000120}''"])
       (simp_all add: warm_def demo_platform_def later_def offline_def demo_parse_simps
          payload_def)
  then have r: "readLocalCache demo_platform later ''u'' warm = payload (JArr [JNum 7]) 1000120"
    by (simp add: payload_def)
  have "\<exists>v. fst (fetchJson demo_platform later ''u'' True warm) = Returns (Some v)"
    by (rule fetchJson_returns) (simp_all add: c r entry_ok_payload)
  with c r show ?thesis by (simp add: entry_ok_payload)
qed

text \<open>
  Started on a store and a memory that hold only such entries, on a platform that reads
  back what it writes, no call of any sequence throws or returns \<^verbatim>\<open>undefined\<close>.
\<close>

theorem own_entries_never_throw:
  assumes "platform_ok P" "storage_ok P s" "memory_ok s"
  shows "\<forall>out \<in> set (outcomes P calls s). \<exists>v. out = Returns (Some v)"
  using assms
proof (induction calls arbitrary: s)
  case Nil
  then show ?case by simp
next
  case (Cons c calls)
  obtain e url useCache where c: "c = (e, url, useCache)" by (cases c)
  from Cons.prems have mem: "cache s url = None \<or> (\<exists>c. cache s url = Some c \<and> entry_ok c)"
    by (cases "cache s url") (auto simp: memory_ok_def)
  from Cons.prems have dur:
    "readLocalCache P e url s = JNull \<or> entry_ok (readLocalCache P e url s)"
    by (simp add: readLocalCache_ok)
  from fetchJson_ok [OF mem dur]
  have here: "\<exists>v. fst (fetchJson P e url useCache s) = Returns (Some v)" .
  from Cons.prems fetchJson_preserves [of P s e url useCache]
  have "storage_ok P (snd (fetchJson P e url useCache s))"
    and "memory_ok (snd (fetchJson P e url useCache s))"
    by simp_all
  with Cons.IH [OF Cons.prems(1)]
  have "\<forall>out \<in> set (outcomes P calls (snd (fetchJson P e url useCache s))).
      \<exists>v. out = Returns (Some v)"
    by blast
  with here c show ?case by simp
qed

theorem own_entries_never_throw_witness:
  "platform_ok demo_platform \<and> storage_ok demo_platform new_client \<and> memory_ok new_client
   \<and> outcomes demo_platform [(online, ''u'', True), (later, ''u'', True)] new_client =
       [Returns (Some (JArr [JNum 7])), Returns (Some (JArr [JNum 7]))]"
proof -
  have p: "platform_ok demo_platform"
    by (simp add: platform_ok_def readable_ok_def demo_platform_def demo_stringify_def
          demo_parse_simps entry_ok_payload)
       (simp add: demo_parse_def)
  have s: "storage_ok demo_platform new_client" and m: "memory_ok new_client"
    by (simp_all add: storage_ok_def memory_ok_def new_client_def)
  have "memoryCache demo_platform later ''u'' warm = Some (Returns (Some (JArr [JNum 7])))"
    by (rule memoryCache_payload [where t = 1000120])
       (simp_all add: warm_def later_times cacheTime_def)
  then have second: "fetchJson demo_platform later ''u'' True warm =
      (Returns (Some (JArr [JNum 7])), warm)"
    by (simp add: fetchJson_True)
  have o: "outcomes demo_platform [(online, ''u'', True), (later, ''u'', True)] new_client =
      [Returns (Some (JArr [JNum 7])), Returns (Some (JArr [JNum 7]))]"
    by (simp add: fetchJson_online_new second)
  from own_entries_never_throw [OF p s m,
      of "[(online, ''u'', True), (later, ''u'', True)]"] o
  have "\<forall>out \<in> set [Returns (Some (JArr [JNum 7])), Returns (Some (JArr [JNum 7]))].
      \<exists>v. out = Returns (Some v)"
    by simp
  with p s m o show ?thesis by simp
qed

section \<open>The claims about the troubleshooting page\<close>

lemma str_includes_sublist: "str_includes s q \<longleftrightarrow> sublist q s"
  by (induction s) (auto simp: sublist_Cons_right)

lemma normalize_crash_issue: "normalize_issue crash_issue = crash_fix"
  by (simp add: normalize_issue_def crash_issue_def crash_fix_def toLowerCase_def lower_def
        derive_category_def)

lemma normalize_mic_issue: "normalize_issue mic_issue = mic_fix"
  by (simp add: normalize_issue_def mic_issue_def mic_fix_def toLowerCase_def lower_def
        derive_category_def)

lemma normalized_examples: "normalized [crash_issue, mic_issue] = [crash_fix, mic_fix]"
  by (simp add: normalized_def normalize_crash_issue normalize_mic_issue)
     (simp add: crash_issue_def mic_issue_def)

lemma renderItems_examples:
  "renderItems [crash_fix, mic_fix] ''windows'' [] = [crash_fix]"
  "renderItems [crash_fix, mic_fix] ''all'' ''mic'' = [mic_fix]"
  by (simp_all add: renderItems_def matches_def crash_fix_def mic_fix_def toLowerCase_def
        lower_def)

text \<open>
  Claim C6. The category of a normalized record is derived from its lower-case labels
  by the first matching rule in the order \<open>windows\<close>, \<open>macos\<close> or \<open>mac\<close>, \<open>pro\<close>,
  \<open>macro\<close>, and is \<open>macro\<close> when no rule matches; an issue labelled \<open>pro\<close> and
  \<open>windows\<close> is categorized as \<open>windows\<close>.
\<close>

theorem category_first_match:
  "category (normalize_issue i) = first_match_category (labels (normalize_issue i))
   \<and> derive_category ls = first_match_category ls
   \<and> labels (normalize_issue pro_windows_issue) = [''pro'', ''windows'']
   \<and> category (normalize_issue pro_windows_issue) = ''windows''"
proof -
  have d: "derive_category xs = first_match_category xs" for xs
    by (simp add: derive_category_def first_match_category_def category_rules_def)
  have "category (normalize_issue i) = derive_category (labels (normalize_issue i))"
    by (simp add: normalize_issue_def Let_def)
  moreover have "labels (normalize_issue pro_windows_issue) = [''pro'', ''windows'']"
    by (simp add: normalize_issue_def pro_windows_issue_def toLowerCase_def lower_def Let_def)
  moreover have "category (normalize_issue pro_windows_issue) = ''windows''"
    by (simp add: normalize_issue_def pro_windows_issue_def toLowerCase_def lower_def
          derive_category_def Let_def)
  ultimately show ?thesis by (simp add: d)
qed

theorem category_first_match_witness:
  "category (normalize_issue mic_issue) = ''macos''
   \<and> first_match_category [''macos''] = ''macos''
   \<and> first_match_category [''approved''] = ''macro''"
proof -
  from category_first_match [of mic_issue "[''approved'']"]
  have "first_match_category [''macos''] = ''macos''"
    and "first_match_category [''approved''] = derive_category [''approved'']"
    by (simp_all add: normalize_mic_issue mic_fix_def)
  then show ?thesis
    by (simp add: normalize_mic_issue mic_fix_def derive_category_def)
qed

text \<open>
  Claim C7. \<^verbatim>\<open>renderItems\<close> keeps a record exactly when the selected category is
  \<open>all\<close> or equals the record's category, and the query is empty or its lower-case
  form occurs in the lower-case title, in the lower-case body, or in some label. The two
  records of the claim are what the issues with these titles and label names are
  normalized to; of them, the category \<open>windows\<close> keeps only the first, and the query
  \<open>mic\<close> under \<open>all\<close> keeps only the second.
\<close>

theorem filter_predicate:
  "(item \<in> set (renderItems fixes activeCat query) \<longleftrightarrow>
      item \<in> set fixes \<and>
      (activeCat = ''all'' \<or> category item = activeCat) \<and>
      (query = [] \<or>
       sublist (toLowerCase query) (toLowerCase (title item)) \<or>
       sublist (toLowerCase query) (toLowerCase (body item)) \<or>
       (\<exists>l \<in> set (labels item). sublist (toLowerCase query) l)))
   \<and> normalized [crash_issue, mic_issue] = [crash_fix, mic_fix]
   \<and> renderItems [crash_fix, mic_fix] ''windows'' [] = [crash_fix]
   \<and> renderItems [crash_fix, mic_fix] ''all'' ''mic'' = [mic_fix]"
proof -
  have "matches activeCat query item \<longleftrightarrow>
      (activeCat = ''all'' \<or> category item = activeCat) \<and>
      (query = [] \<or>
       sublist (toLowerCase query) (toLowerCase (title item)) \<or>
       sublist (toLowerCase query) (toLowerCase (body item)) \<or>
       (\<exists>l \<in> set (labels item). sublist (toLowerCase query) l))"
    by (auto simp: matches_def str_includes_sublist list_ex_iff Let_def)
  then have "item \<in> set (renderItems fixes activeCat query) \<longleftrightarrow>
      item \<in> set fixes \<and>
      (activeCat = ''all'' \<or> category item = activeCat) \<and>
      (query = [] \<or>
       sublist (toLowerCase query) (toLowerCase (title item)) \<or>
       sublist (toLowerCase query) (toLowerCase (body item)) \<or>
       (\<exists>l \<in> set (labels item). sublist (toLowerCase query) l))"
    by (simp add: renderItems_def)
  then show ?thesis
    by (simp only: normalized_examples renderItems_examples simp_thms)
qed

theorem filter_predicate_witness:
  "mic_fix \<in> set (renderItems [crash_fix, mic_fix] ''macos'' ''DETECT'')
   \<and> crash_fix \<notin> set (renderItems [crash_fix, mic_fix] ''macos'' ''DETECT'')"
proof -
  have l: "toLowerCase ''DETECT'' = ''detect''"
    "toLowerCase ''Mic not detected'' = ''mic not detected''"
    by (simp_all add: toLowerCase_def lower_def)
  have "sublist ''detect'' ''mic not detected''"
    using str_includes_sublist [of "''mic not detected''" "''detect''"] by simp
  then have "mic_fix \<in> set (renderItems [crash_fix, mic_fix] ''macos'' ''DETECT'')"
    using filter_predicate [of mic_fix "[crash_fix, mic_fix]" "''macos''" "''DETECT''"]
    by (simp add: l mic_fix_def)
  moreover have "crash_fix \<notin> set (renderItems [crash_fix, mic_fix] ''macos'' ''DETECT'')"
    using filter_predicate [of crash_fix "[crash_fix, mic_fix]" "''macos''" "''DETECT''"]
    by (simp add: crash_fix_def)
  ultimately show ?thesis by simp
qed

text \<open>
  Claim C8. What \<^verbatim>\<open>renderItems\<close> shows is a subsequence of the records it filters,
  in their order. With the category \<open>all\<close> and the empty query it shows every
  normalized record, and these are the issues without a \<^verbatim>\<open>pull_request\<close> field, in
  the order of the response.
\<close>

theorem filter_stable:
  "subseq (renderItems fixes activeCat query) fixes
   \<and> renderItems (normalized issues) ''all'' [] = normalized issues
   \<and> normalized issues = map normalize_issue (filter (\<lambda>i. \<not> truthy (issue_pull_request i)) issues)"
  by (simp add: renderItems_def matches_def normalized_def)

theorem filter_stable_witness:
  "subseq [mic_fix] [crash_fix, mic_fix]
   \<and> renderItems (normalized [crash_issue,
         mic_issue\<lparr>issue_pull_request := Some (JObj [])\<rparr>, mic_issue]) ''all'' [] =
       [crash_fix, mic_fix]"
proof -
  from filter_stable [of "[crash_fix, mic_fix]" "''all''" "''mic''"]
  have "subseq [mic_fix] [crash_fix, mic_fix]"
    by (simp only: renderItems_examples)
  moreover have "normalized [crash_issue,
         mic_issue\<lparr>issue_pull_request := Some (JObj [])\<rparr>, mic_issue] =
       [crash_fix, mic_fix]"
    by (simp add: normalized_def normalize_crash_issue normalize_mic_issue)
       (simp add: crash_issue_def mic_issue_def)
  moreover from filter_stable [of "[]" "''all''" "[]"
      "[crash_issue, mic_issue\<lparr>issue_pull_request := Some (JObj [])\<rparr>, mic_issue]"]
  have "renderItems (normalized [crash_issue,
         mic_issue\<lparr>issue_pull_request := Some (JObj [])\<rparr>, mic_issue]) ''all'' [] =
       normalized [crash_issue, mic_issue\<lparr>issue_pull_request := Some (JObj [])\<rparr>, mic_issue]"
    by blast
  ultimately show ?thesis by (simp only: simp_thms)
qed

end
